theory Spec2Isabelle
  imports Main
begin

section \<open>The link command of the Hydrogen CLI\<close>

text \<open>
  A shallow embedding of \<^verbatim>\<open>linkStorefront\<close> and \<^verbatim>\<open>createNewStorefront\<close>
  (commands/hydrogen/link.ts). Both functions are sequences of awaited calls to external
  collaborators: the prompt layer, the admin API and the local config store. A function is
  modelled by the value it returns or the error it throws, together with the list of
  collaborator calls it made, in order.
\<close>

subsection \<open>Data\<close>

type_synonym AdminSession = string

text \<open>\<^verbatim>\<open>interface HydrogenStorefront {id: string; title: string; productionUrl: string}\<close>\<close>

record HydrogenStorefront =
  id_sf :: string
  title :: string
  productionUrl :: string

text \<open>
  \<^verbatim>\<open>ShopifyConfig\<close> is imported from lib/shopify-config.js; \<^verbatim>\<open>linkStorefront\<close> reads
  \<^verbatim>\<open>config.shop\<close>, \<^verbatim>\<open>config.storefront?.id\<close> and \<^verbatim>\<open>config.storefront.title\<close>.
\<close>

record LinkedStorefront =
  id_linked :: string
  title_linked :: string

record ShopifyConfig =
  shop :: "string option"
  storefront :: "LinkedStorefront option"

text \<open>The destructured last parameter \<^verbatim>\<open>{force = false, flagStorefront, cliCommand}\<close>.\<close>

record LinkOptions =
  force :: "bool option"
  flagStorefront :: "string option"
  cliCommand :: string

text \<open>The value \<^verbatim>\<open>createStorefront\<close> resolves to: \<^verbatim>\<open>result.storefront\<close>, \<^verbatim>\<open>result.jobId\<close>.\<close>

record CreateResult =
  storefront_res :: "HydrogenStorefront option"
  jobId_res :: "string option"

text \<open>
  An error is either an \<^verbatim>\<open>AbortError\<close> constructed in link.ts, with its message, or the
  rejection of an awaited collaborator call, with an opaque payload.
\<close>

datatype error = AbortError string | Rejected string

text \<open>The calls to collaborators, with the arguments passed.\<close>

datatype event =
    ConfirmationPrompt string
  | GetStorefronts AdminSession
  | Warning string "string list"
  | SelectPrompt string "(string \<times> string option) list"
  | TextPrompt string string
  | CreateStorefront AdminSession string
  | WaitForJob AdminSession "string option"
  | SetStorefront string HydrogenStorefront

text \<open>
  What the collaborators answer during one invocation: \<open>Inl\<close> is a rejected promise,
  \<open>Inr\<close> the resolved value. \<^verbatim>\<open>basename\<close> and \<^verbatim>\<open>titleize\<close> are pure helpers defined
  outside link.ts.
\<close>

record Env =
  renderConfirmationPrompt :: "string \<Rightarrow> string + bool"
  getStorefronts :: "AdminSession \<Rightarrow> string + HydrogenStorefront list"
  renderSelectPrompt :: "string \<Rightarrow> (string \<times> string option) list \<Rightarrow> string + string option"
  renderTextPrompt :: "string \<Rightarrow> string \<Rightarrow> string + string"
  createStorefront :: "AdminSession \<Rightarrow> string \<Rightarrow> string + CreateResult"
  waitForJob :: "AdminSession \<Rightarrow> string option \<Rightarrow> string + unit"
  setStorefront :: "string \<Rightarrow> HydrogenStorefront \<Rightarrow> string + unit"
  basename :: "string \<Rightarrow> string"
  titleize :: "string \<Rightarrow> string"

subsection \<open>Effects\<close>

text \<open>A computation: the value returned or the error thrown, and the calls made.\<close>

type_synonym 'a io = "(error + 'a) \<times> event list"

definition io_return :: "'a \<Rightarrow> 'a io" where
  "io_return x = (Inr x, [])"

definition io_throw :: "error \<Rightarrow> 'a io" where
  "io_throw e = (Inl e, [])"

definition io_bind :: "'a io \<Rightarrow> ('a \<Rightarrow> 'b io) \<Rightarrow> 'b io" where
  "io_bind m f =
     (case m of
        (Inl e, t) \<Rightarrow> (Inl e, t)
      | (Inr x, t) \<Rightarrow> (case f x of (r, t') \<Rightarrow> (r, t @ t')))"

text \<open>\<^verbatim>\<open>await call(args)\<close>: the call is recorded; a rejection is thrown.\<close>

definition await :: "event \<Rightarrow> string + 'a \<Rightarrow> 'a io" where
  "await ev r = ((case r of Inl x \<Rightarrow> Inl (Rejected x) | Inr v \<Rightarrow> Inr v), [ev])"

text \<open>A call that returns nothing and is not awaited (\<^verbatim>\<open>renderWarning\<close>).\<close>

definition emit :: "event \<Rightarrow> unit io" where
  "emit ev = (Inr (), [ev])"

text \<open>
  JavaScript truthiness of a \<^verbatim>\<open>string | undefined\<close> (or \<^verbatim>\<open>string | null\<close>) value:
  \<^verbatim>\<open>undefined\<close>, \<^verbatim>\<open>null\<close> and the empty string are falsy.
\<close>

definition truthy :: "string option \<Rightarrow> bool" where
  "truthy v = (case v of None \<Rightarrow> False | Some s \<Rightarrow> s \<noteq> [])"

subsection \<open>The task runner\<close>

text \<open>
  \<^verbatim>\<open>renderTasks\<close> of @shopify/cli-kit runs the tasks in order. A task whose \<^verbatim>\<open>skip\<close>
  predicate holds when its turn comes is passed over; a task that throws ends the run and
  the error is thrown to the caller. The tasks of link.ts are closures over local
  variables: \<open>'s\<close> is the type of those variables, which keep their values when a task
  throws.
\<close>

record 's Task =
  title_t :: string
  task :: "'s \<Rightarrow> (error option \<times> 's) \<times> event list"
  skip :: "('s \<Rightarrow> bool) option"

fun renderTasks :: "'s Task list \<Rightarrow> 's \<Rightarrow> (error option \<times> 's) \<times> event list" where
  "renderTasks [] s = ((None, s), [])"
| "renderTasks (t # ts) s =
     (if (case skip t of None \<Rightarrow> False | Some p \<Rightarrow> p s) then renderTasks ts s
      else (case task t s of
              ((Some e, s'), evs) \<Rightarrow> ((Some e, s'), evs)
            | ((None, s'), evs) \<Rightarrow>
                (case renderTasks ts s' of (r, evs') \<Rightarrow> (r, evs @ evs'))))"

subsection \<open>createNewStorefront\<close>

text \<open>\<^verbatim>\<open>let storefront: HydrogenStorefront | undefined; let jobId: string | undefined;\<close>\<close>

record Locals =
  storefront_var :: "HydrogenStorefront option"
  jobId_var :: "string option"

definition UNKNOWN_ERROR :: string where
  "UNKNOWN_ERROR =
     ''Unknown error ocurred. Please try again or contact support if the error persists.''"

text \<open>
  The first task awaits \<^verbatim>\<open>createStorefront(session, projectName)\<close> and then assigns both
  variables; a rejection leaves them as they were.
\<close>

definition creatingStorefront :: "Env \<Rightarrow> AdminSession \<Rightarrow> string \<Rightarrow> Locals Task" where
  "creatingStorefront env session projectName =
     \<lparr> title_t = ''Creating storefront'',
       task = (\<lambda>l. case createStorefront env session projectName of
                  Inl x \<Rightarrow> ((Some (Rejected x), l), [CreateStorefront session projectName])
                | Inr result \<Rightarrow>
                    ((None, l\<lparr>storefront_var := storefront_res result,
                              jobId_var := jobId_res result\<rparr>),
                     [CreateStorefront session projectName])),
       skip = None \<rparr>"

text \<open>
  The second task awaits \<^verbatim>\<open>waitForJob(session, jobId!)\<close> inside \<^verbatim>\<open>try\<close>; the
  \<^verbatim>\<open>catch\<close> clears \<^verbatim>\<open>storefront\<close> and the task returns normally. The non-null assertion
  is erased at run time, so the call receives whatever \<^verbatim>\<open>jobId\<close> holds.
  \<^verbatim>\<open>skip: () => !jobId\<close>.
\<close>

definition creatingApiTokens :: "Env \<Rightarrow> AdminSession \<Rightarrow> Locals Task" where
  "creatingApiTokens env session =
     \<lparr> title_t = ''Creating API tokens'',
       task = (\<lambda>l. case waitForJob env session (jobId_var l) of
                  Inl x \<Rightarrow> ((None, l\<lparr>storefront_var := None\<rparr>),
                            [WaitForJob session (jobId_var l)])
                | Inr u \<Rightarrow> ((None, l), [WaitForJob session (jobId_var l)])),
       skip = Some (\<lambda>l. \<not> truthy (jobId_var l)) \<rparr>"

definition creationTasks :: "Env \<Rightarrow> AdminSession \<Rightarrow> string \<Rightarrow> Locals Task list" where
  "creationTasks env session projectName =
     [creatingStorefront env session projectName, creatingApiTokens env session]"

definition initialLocals :: Locals where
  "initialLocals = \<lparr> storefront_var = None, jobId_var = None \<rparr>"

definition NAME_MESSAGE :: string where
  "NAME_MESSAGE = ''New storefront name''"

definition createNewStorefront :: "Env \<Rightarrow> string \<Rightarrow> AdminSession \<Rightarrow> HydrogenStorefront io" where
  "createNewStorefront env root session =
     (let projectDirectory = basename env root in
      io_bind (await (TextPrompt NAME_MESSAGE (titleize env projectDirectory))
                 (renderTextPrompt env NAME_MESSAGE (titleize env projectDirectory)))
        (\<lambda>projectName.
           case renderTasks (creationTasks env session projectName) initialLocals of
             ((Some e, l), evs) \<Rightarrow> (Inl e, evs)
           | ((None, l), evs) \<Rightarrow>
               (case storefront_var l of
                  None \<Rightarrow> (Inl (AbortError UNKNOWN_ERROR), evs)
                | Some s \<Rightarrow> (Inr s, evs))))"

subsection \<open>linkStorefront\<close>

definition NO_SHOP :: string where
  "NO_SHOP = ''No shop found in local config, login first.''"

definition overwriteMessage :: "string \<Rightarrow> string" where
  "overwriteMessage t =
     ''Your project is currently linked to '' @ t @
     ''. Do you want to link to a different Hydrogen storefront on Shopify?''"

text \<open>The default of the destructured parameter: \<^verbatim>\<open>force = false\<close>.\<close>

definition forceOf :: "LinkOptions \<Rightarrow> bool" where
  "forceOf opts = (case force opts of None \<Rightarrow> False | Some b \<Rightarrow> b)"

text \<open>
  Lines 100 to 108: the value is whether the function goes on. The prompt is shown when
  \<^verbatim>\<open>config.storefront?.id && !force\<close>.
\<close>

definition confirmOverwrite :: "Env \<Rightarrow> ShopifyConfig \<Rightarrow> bool \<Rightarrow> bool io" where
  "confirmOverwrite env config frc =
     (case storefront config of
        None \<Rightarrow> io_return True
      | Some linked \<Rightarrow>
          if truthy (Some (id_linked linked)) \<and> \<not> frc
          then await (ConfirmationPrompt (overwriteMessage (title_linked linked)))
                 (renderConfirmationPrompt env (overwriteMessage (title_linked linked)))
          else io_return True)"

text \<open>The text of a \<^verbatim>\<open>string | undefined\<close> value inside a template literal.\<close>

definition str :: "string option \<Rightarrow> string" where
  "str v = (case v of None \<Rightarrow> ''undefined'' | Some s \<Rightarrow> s)"

text \<open>The warning of lines 120 to 132, with the body's tokens in order.\<close>

definition notFoundWarning :: "string option \<Rightarrow> string option \<Rightarrow> string \<Rightarrow> event" where
  "notFoundWarning flag shp cli =
     Warning (''Couldn't find '' @ str flag)
       [''There's no storefront matching'', str flag, ''on your'', str shp,
        ''shop. To see all available Hydrogen storefronts, run'', cli @ '' list'']"

text \<open>The choices of the selection prompt, lines 137 to 146.\<close>

definition choices :: "HydrogenStorefront list \<Rightarrow> (string \<times> string option) list" where
  "choices storefronts =
     (''Create a new storefront'', None) #
     map (\<lambda>s. (title s @ '' ('' @ productionUrl s @ '')'', Some (id_sf s))) storefronts"

definition SELECT_MESSAGE :: string where
  "SELECT_MESSAGE = ''Select a Hydrogen storefront to link''"

text \<open>Lines 160 to 164: the write to the config store, and the value returned.\<close>

definition persist :: "Env \<Rightarrow> string \<Rightarrow> HydrogenStorefront option \<Rightarrow> HydrogenStorefront option io" where
  "persist env root selectedStorefront =
     (case selectedStorefront of
        None \<Rightarrow> io_return None
      | Some s \<Rightarrow>
          io_bind (await (SetStorefront root s) (setStorefront env root s))
            (\<lambda>u. io_return (Some s)))"

text \<open>
  Lines 114 to 135, the branch taken when \<^verbatim>\<open>flagStorefront\<close> is truthy: the first
  storefront of the list whose title is \<^verbatim>\<open>===\<close> the flag; when there is none, the warning
  and an early return of \<^verbatim>\<open>undefined\<close>.
\<close>

definition linkByName ::
  "Env \<Rightarrow> string \<Rightarrow> ShopifyConfig \<Rightarrow> LinkOptions \<Rightarrow> HydrogenStorefront list \<Rightarrow>
   HydrogenStorefront option io"
where
  "linkByName env root config opts storefronts =
     (case find (\<lambda>s. Some (title s) = flagStorefront opts) storefronts of
        None \<Rightarrow>
          io_bind (emit (notFoundWarning (flagStorefront opts) (shop config) (cliCommand opts)))
            (\<lambda>u. io_return None)
      | Some s \<Rightarrow> persist env root (Some s))"

text \<open>
  Lines 136 to 158, the branch taken otherwise: the selection prompt, then the storefront
  of the list with the chosen id, or the creation of a new one when the chosen value is
  falsy.
\<close>

definition linkByPrompt ::
  "Env \<Rightarrow> string \<Rightarrow> AdminSession \<Rightarrow> HydrogenStorefront list \<Rightarrow> HydrogenStorefront option io"
where
  "linkByPrompt env root session storefronts =
     io_bind (await (SelectPrompt SELECT_MESSAGE (choices storefronts))
                (renderSelectPrompt env SELECT_MESSAGE (choices storefronts)))
       (\<lambda>storefrontId.
          io_bind
            (if truthy storefrontId
             then io_return (find (\<lambda>s. Some (id_sf s) = storefrontId) storefronts)
             else io_bind (createNewStorefront env root session) (\<lambda>s. io_return (Some s)))
            (persist env root))"

definition linkStorefront ::
  "Env \<Rightarrow> string \<Rightarrow> AdminSession \<Rightarrow> ShopifyConfig \<Rightarrow> LinkOptions \<Rightarrow> HydrogenStorefront option io"
where
  "linkStorefront env root session config opts =
     (if \<not> truthy (shop config) then io_throw (AbortError NO_SHOP)
      else
        io_bind (confirmOverwrite env config (forceOf opts)) (\<lambda>overwriteLink.
          if \<not> overwriteLink then io_return None
          else
            io_bind (await (GetStorefronts session) (getStorefronts env session))
              (\<lambda>storefronts.
                 if truthy (flagStorefront opts)
                 then linkByName env root config opts storefronts
                 else linkByPrompt env root session storefronts)))"

subsection \<open>Writes to the config store\<close>

text \<open>The calls of \<^verbatim>\<open>setStorefront\<close> among the calls made.\<close>

fun isWrite :: "event \<Rightarrow> bool" where
  "isWrite (SetStorefront r s) = True"
| "isWrite ev = False"

definition writes :: "event list \<Rightarrow> event list" where
  "writes t = filter isWrite t"

text \<open>
  The overwrite of an existing link is allowed when no storefront is linked (the config has
  none, or one with an empty id), when \<^verbatim>\<open>force\<close> is set, or when the user answers yes
  to the confirmation. It is not allowed when the user declines, nor when the prompt is
  rejected.
\<close>

definition overwriteAllowed :: "Env \<Rightarrow> ShopifyConfig \<Rightarrow> LinkOptions \<Rightarrow> bool" where
  "overwriteAllowed env config opts =
     (case storefront config of
        None \<Rightarrow> True
      | Some linked \<Rightarrow>
          if truthy (Some (id_linked linked)) \<and> \<not> forceOf opts
          then renderConfirmationPrompt env (overwriteMessage (title_linked linked)) = Inr True
          else True)"

text \<open>
  A storefront is fully resolved in an invocation when the shop is set in the config, the
  overwrite is allowed, the fetch of the list succeeds, and the storefront is in the list
  with the title asked for by the flag, or is in the list with the id chosen at the
  prompt, or is the one \<^verbatim>\<open>createNewStorefront\<close> returned after the choice of "Create a new
  storefront". On a path that stops at a guard (no shop, overwrite declined) no storefront
  is fully resolved.
\<close>

definition fullyResolved ::
  "Env \<Rightarrow> string \<Rightarrow> AdminSession \<Rightarrow> ShopifyConfig \<Rightarrow> LinkOptions \<Rightarrow> HydrogenStorefront \<Rightarrow>
   bool"
where
  "fullyResolved env root session config opts s =
     (truthy (shop config) \<and> overwriteAllowed env config opts \<and>
      (case getStorefronts env session of
         Inl x \<Rightarrow> False
       | Inr storefronts \<Rightarrow>
           if truthy (flagStorefront opts)
           then s \<in> set storefronts \<and> Some (title s) = flagStorefront opts
           else (case renderSelectPrompt env SELECT_MESSAGE (choices storefronts) of
                   Inl x \<Rightarrow> False
                 | Inr storefrontId \<Rightarrow>
                     if truthy storefrontId
                     then s \<in> set storefronts \<and> Some (id_sf s) = storefrontId
                     else fst (createNewStorefront env root session) = Inr s)))"

subsection \<open>Sample inputs\<close>

definition storeA :: HydrogenStorefront where
  "storeA = \<lparr> id_sf = ''1'', title = ''Apparel'', productionUrl = ''https://a.example'' \<rparr>"

definition storeB :: HydrogenStorefront where
  "storeB = \<lparr> id_sf = ''2'', title = ''Apparel'', productionUrl = ''https://b.example'' \<rparr>"

definition storeC :: HydrogenStorefront where
  "storeC = \<lparr> id_sf = ''3'', title = ''Boards'', productionUrl = ''https://c.example'' \<rparr>"

definition createdStore :: HydrogenStorefront where
  "createdStore = \<lparr> id_sf = ''4'', title = ''My Cool Shop'', productionUrl = [] \<rparr>"

definition sampleRoot :: string where
  "sampleRoot = ''/home/dev/my-cool-shop''"

definition sampleSession :: AdminSession where
  "sampleSession = ''token''"

text \<open>
  A shop with three storefronts, two of them with the same title. The user declines to
  overwrite, picks the third storefront at the selection prompt and keeps the proposed
  name; creation returns a job, and every call succeeds.
\<close>

definition sampleEnv :: Env where
  "sampleEnv =
     \<lparr> renderConfirmationPrompt = (\<lambda>m. Inr False),
       getStorefronts = (\<lambda>se. Inr [storeA, storeB, storeC]),
       renderSelectPrompt = (\<lambda>m cs. Inr (Some ''3'')),
       renderTextPrompt = (\<lambda>m d. Inr d),
       createStorefront =
         (\<lambda>se n. Inr \<lparr> storefront_res = Some createdStore, jobId_res = Some ''job'' \<rparr>),
       waitForJob = (\<lambda>se j. Inr ()),
       setStorefront = (\<lambda>r s. Inr ()),
       basename = (\<lambda>p. ''my-cool-shop''),
       titleize = (\<lambda>d. ''My Cool Shop'') \<rparr>"

text \<open>The same, with the matching storefront later in the list.\<close>

definition reorderedEnv :: Env where
  "reorderedEnv = sampleEnv \<lparr> getStorefronts := (\<lambda>se. Inr [storeC, storeA]) \<rparr>"

text \<open>The same, with the first two storefronts, which share a title, in the other order.\<close>

definition swappedEnv :: Env where
  "swappedEnv = sampleEnv \<lparr> getStorefronts := (\<lambda>se. Inr [storeB, storeA, storeC]) \<rparr>"

text \<open>The same, with a creator that returns the storefront and no job.\<close>

definition noJobEnv :: Env where
  "noJobEnv =
     sampleEnv \<lparr> createStorefront :=
       (\<lambda>se n. Inr \<lparr> storefront_res = Some createdStore, jobId_res = None \<rparr>) \<rparr>"

text \<open>The same, with a job that fails, and with a creator that fails.\<close>

definition jobFailsEnv :: Env where
  "jobFailsEnv = sampleEnv \<lparr> waitForJob := (\<lambda>se j. Inl ''job failed'') \<rparr>"

definition createFailsEnv :: Env where
  "createFailsEnv = sampleEnv \<lparr> createStorefront := (\<lambda>se n. Inl ''access denied'') \<rparr>"

definition unlinkedConfig :: ShopifyConfig where
  "unlinkedConfig = \<lparr> shop = Some ''janes.myshopify.com'', storefront = None \<rparr>"

definition linkedConfig :: ShopifyConfig where
  "linkedConfig =
     \<lparr> shop = Some ''janes.myshopify.com'',
       storefront = Some \<lparr> id_linked = ''3'', title_linked = ''Boards'' \<rparr> \<rparr>"

text \<open>The config once the first storefront is linked.\<close>

definition relinkedConfig :: ShopifyConfig where
  "relinkedConfig =
     \<lparr> shop = Some ''janes.myshopify.com'',
       storefront = Some \<lparr> id_linked = ''1'', title_linked = ''Apparel'' \<rparr> \<rparr>"

definition noShopConfig :: ShopifyConfig where
  "noShopConfig = \<lparr> shop = None, storefront = None \<rparr>"

definition byNameOpts :: LinkOptions where
  "byNameOpts = \<lparr> force = None, flagStorefront = Some ''Apparel'', cliCommand = ''h2'' \<rparr>"

definition unknownNameOpts :: LinkOptions where
  "unknownNameOpts = \<lparr> force = None, flagStorefront = Some ''Shoes'', cliCommand = ''h2'' \<rparr>"

definition emptyNameOpts :: LinkOptions where
  "emptyNameOpts = \<lparr> force = None, flagStorefront = Some [], cliCommand = ''h2'' \<rparr>"

definition forcedOpts :: LinkOptions where
  "forcedOpts =
     \<lparr> force = Some True, flagStorefront = Some ''Apparel'', cliCommand = ''h2'' \<rparr>"

definition promptOpts :: LinkOptions where
  "promptOpts = \<lparr> force = None, flagStorefront = None, cliCommand = ''h2'' \<rparr>"

section \<open>Properties\<close>

subsection \<open>Auxiliary facts\<close>

lemmas io_defs = io_bind_def io_return_def io_throw_def await_def emit_def

lemmas sample_defs =
  storeA_def storeB_def storeC_def createdStore_def sampleEnv_def reorderedEnv_def
  swappedEnv_def relinkedConfig_def
  noJobEnv_def jobFailsEnv_def createFailsEnv_def unlinkedConfig_def linkedConfig_def
  noShopConfig_def byNameOpts_def unknownNameOpts_def emptyNameOpts_def forcedOpts_def
  promptOpts_def

lemmas model_defs =
  linkStorefront_def linkByName_def linkByPrompt_def persist_def confirmOverwrite_def
  forceOf_def truthy_def createNewStorefront_def creationTasks_def creatingStorefront_def
  creatingApiTokens_def initialLocals_def io_defs

text \<open>What the two tasks do, started from the initial values of the local variables.\<close>

lemma renderTasks_creation:
  "renderTasks (creationTasks env session name) initialLocals =
     (case createStorefront env session name of
        Inl x \<Rightarrow> ((Some (Rejected x), initialLocals), [CreateStorefront session name])
      | Inr res \<Rightarrow>
          if truthy (jobId_res res)
          then ((None, \<lparr>storefront_var =
                          (case waitForJob env session (jobId_res res) of
                             Inl x \<Rightarrow> None | Inr u \<Rightarrow> storefront_res res),
                        jobId_var = jobId_res res\<rparr>),
                [CreateStorefront session name, WaitForJob session (jobId_res res)])
          else ((None, \<lparr>storefront_var = storefront_res res, jobId_var = jobId_res res\<rparr>),
                [CreateStorefront session name]))"
  by (simp add: creationTasks_def creatingStorefront_def creatingApiTokens_def initialLocals_def
      split: sum.splits)

lemma writes_simps:
  "writes [] = []"
  "writes (t @ t') = writes t @ writes t'"
  "writes (SetStorefront r s # t) = SetStorefront r s # writes t"
  "writes (ConfirmationPrompt m # t) = writes t"
  "writes (GetStorefronts se # t) = writes t"
  "writes (Warning h b # t) = writes t"
  "writes (SelectPrompt m cs # t) = writes t"
  "writes (TextPrompt m d # t) = writes t"
  "writes (CreateStorefront se n # t) = writes t"
  "writes (WaitForJob se j # t) = writes t"
  by (simp_all add: writes_def)

lemma writes_notFoundWarning: "writes (notFoundWarning f sh c # t) = writes t"
  by (simp add: notFoundWarning_def writes_simps)

lemma confirmOverwrite_cases:
  "confirmOverwrite env config frc = (Inr True, []) \<or>
   (\<exists>m r. confirmOverwrite env config frc = (r, [ConfirmationPrompt m]))"
  by (simp add: confirmOverwrite_def io_defs split: option.splits)

lemma writes_confirmOverwrite: "writes (snd (confirmOverwrite env config frc)) = []"
  using confirmOverwrite_cases [of env config frc] by (auto simp add: writes_simps)

lemma confirmOverwrite_force: "confirmOverwrite env config True = (Inr True, [])"
  by (simp add: confirmOverwrite_def io_defs split: option.splits)

lemma writes_createNewStorefront: "writes (snd (createNewStorefront env root session)) = []"
proof (cases "renderTextPrompt env NAME_MESSAGE (titleize env (basename env root))")
  case (Inl x)
  then show ?thesis
    by (simp add: createNewStorefront_def io_defs writes_simps)
next
  case (Inr name)
  then show ?thesis
    by (cases "createStorefront env session name")
      (simp_all add: createNewStorefront_def io_defs renderTasks_creation writes_simps
        split: option.splits sum.splits)
qed

lemma persist_None: "persist env root None = (Inr None, [])"
  by (simp add: persist_def io_defs)

lemma persist_Some:
  "persist env root (Some s) =
     ((case setStorefront env root s of Inl x \<Rightarrow> Inl (Rejected x) | Inr u \<Rightarrow> Inr (Some s)),
      [SetStorefront root s])"
  by (simp add: persist_def io_defs split: sum.splits)

text \<open>Past the two guards and the fetch, the function is one of its two branches.\<close>

lemma linkStorefront_unfold:
  assumes "truthy (shop config)"
    and "confirmOverwrite env config (forceOf opts) = (Inr True, ov)"
    and "getStorefronts env session = Inr storefronts"
  shows "linkStorefront env root session config opts =
     (case (if truthy (flagStorefront opts)
            then linkByName env root config opts storefronts
            else linkByPrompt env root session storefronts) of
        (r, t) \<Rightarrow> (r, ov @ GetStorefronts session # t))"
  using assms
  by (simp add: linkStorefront_def io_defs split: prod.splits)

lemma overwrite_passed:
  assumes "fst (confirmOverwrite env config frc) = Inr True"
  shows "confirmOverwrite env config frc = (Inr True, snd (confirmOverwrite env config frc))"
  using assms by (simp add: prod_eq_iff)

lemma find_first:
  assumes "\<forall>x\<in>set pre. \<not> P x" and "P s"
  shows "find P (pre @ s # post) = Some s"
  using assms by (induction pre) simp_all

lemma linkByName_result:
  assumes "flagStorefront opts = Some f"
  shows "linkByName env root config opts storefronts =
     (case find (\<lambda>s. title s = f) storefronts of
        None \<Rightarrow> (Inr None, [notFoundWarning (Some f) (shop config) (cliCommand opts)])
      | Some s \<Rightarrow>
          ((case setStorefront env root s of Inl x \<Rightarrow> Inl (Rejected x) | Inr u \<Rightarrow> Inr (Some s)),
           [SetStorefront root s]))"
  using assms
  by (simp add: linkByName_def persist_Some io_defs split: option.splits)

lemma overwriteAllowed_iff:
  "overwriteAllowed env config opts \<longleftrightarrow>
     fst (confirmOverwrite env config (forceOf opts)) = Inr True"
  by (auto simp add: overwriteAllowed_def confirmOverwrite_def io_defs
      split: option.splits sum.splits)

lemma linkByName_writes:
  assumes "linkByName env root config opts storefronts = (r, t)"
  shows "(writes t = [] \<and> (\<forall>s. r \<noteq> Inr (Some s))) \<or>
         (\<exists>s t0. t = t0 @ [SetStorefront root s] \<and> writes t0 = [] \<and>
              s \<in> set storefronts \<and> Some (title s) = flagStorefront opts \<and>
              r = (case setStorefront env root s of
                     Inl x \<Rightarrow> Inl (Rejected x) | Inr u \<Rightarrow> Inr (Some s)))"
proof (cases "find (\<lambda>s. Some (title s) = flagStorefront opts) storefronts")
  case None
  with assms show ?thesis
    by (auto simp add: linkByName_def io_defs writes_notFoundWarning writes_simps)
next
  case (Some s)
  then have "s \<in> set storefronts" and "Some (title s) = flagStorefront opts"
    by (auto simp add: find_Some_iff)
  moreover from Some assms have "t = [] @ [SetStorefront root s]"
    and "r = (case setStorefront env root s of
                Inl x \<Rightarrow> Inl (Rejected x) | Inr u \<Rightarrow> Inr (Some s))"
    by (auto simp add: linkByName_def persist_Some)
  ultimately show ?thesis
    using writes_simps(1) by blast
qed

lemma linkByPrompt_writes:
  assumes "linkByPrompt env root session storefronts = (r, t)"
  shows "(writes t = [] \<and> (\<forall>s. r \<noteq> Inr (Some s))) \<or>
         (\<exists>s t0 storefrontId. t = t0 @ [SetStorefront root s] \<and> writes t0 = [] \<and>
              renderSelectPrompt env SELECT_MESSAGE (choices storefronts) = Inr storefrontId \<and>
              (if truthy storefrontId
               then s \<in> set storefronts \<and> Some (id_sf s) = storefrontId
               else fst (createNewStorefront env root session) = Inr s) \<and>
              r = (case setStorefront env root s of
                     Inl x \<Rightarrow> Inl (Rejected x) | Inr u \<Rightarrow> Inr (Some s)))"
proof (cases "renderSelectPrompt env SELECT_MESSAGE (choices storefronts)")
  case (Inl x)
  with assms show ?thesis
    by (auto simp add: linkByPrompt_def io_defs writes_simps)
next
  case (Inr storefrontId)
  note sel = Inr
  show ?thesis
  proof (cases "truthy storefrontId")
    case True
    show ?thesis
    proof (cases "find (\<lambda>s. Some (id_sf s) = storefrontId) storefronts")
      case None
      with assms sel True show ?thesis
        by (auto simp add: linkByPrompt_def io_defs persist_None writes_simps)
    next
      case (Some s)
      then have "s \<in> set storefronts" and "Some (id_sf s) = storefrontId"
        by (auto simp add: find_Some_iff)
      moreover from Some assms sel True have
        "t = [SelectPrompt SELECT_MESSAGE (choices storefronts)] @ [SetStorefront root s]"
        and "r = (case setStorefront env root s of
                    Inl x \<Rightarrow> Inl (Rejected x) | Inr u \<Rightarrow> Inr (Some s))"
        by (auto simp add: linkByPrompt_def io_defs persist_Some)
      moreover have "writes [SelectPrompt SELECT_MESSAGE (choices storefronts)] = []"
        by (simp add: writes_simps)
      ultimately have "if truthy storefrontId
          then s \<in> set storefronts \<and> Some (id_sf s) = storefrontId
          else fst (createNewStorefront env root session) = Inr s"
        and "t = [SelectPrompt SELECT_MESSAGE (choices storefronts)] @ [SetStorefront root s]"
        and "writes [SelectPrompt SELECT_MESSAGE (choices storefronts)] = []"
        and "r = (case setStorefront env root s of
                    Inl x \<Rightarrow> Inl (Rejected x) | Inr u \<Rightarrow> Inr (Some s))"
        using True by simp_all
      with sel show ?thesis
        by blast
    qed
  next
    case False
    obtain cr ct where created: "createNewStorefront env root session = (cr, ct)"
      by (cases "createNewStorefront env root session")
    have noWrites: "writes ct = []"
      using writes_createNewStorefront [of env root session] created by simp
    show ?thesis
    proof (cases cr)
      case (Inl e)
      with assms sel False created noWrites show ?thesis
        by (auto simp add: linkByPrompt_def io_defs writes_simps)
    next
      case (Inr s)
      with assms sel False created have
        "t = (SelectPrompt SELECT_MESSAGE (choices storefronts) # ct) @ [SetStorefront root s]"
        and "r = (case setStorefront env root s of
                    Inl x \<Rightarrow> Inl (Rejected x) | Inr u \<Rightarrow> Inr (Some s))"
        by (auto simp add: linkByPrompt_def io_defs persist_Some)
      moreover have "writes (SelectPrompt SELECT_MESSAGE (choices storefronts) # ct) = []"
        using noWrites by (simp add: writes_simps)
      moreover have "fst (createNewStorefront env root session) = Inr s"
        using created Inr by simp
      ultimately have "if truthy storefrontId
          then s \<in> set storefronts \<and> Some (id_sf s) = storefrontId
          else fst (createNewStorefront env root session) = Inr s"
        and "t = (SelectPrompt SELECT_MESSAGE (choices storefronts) # ct) @
                   [SetStorefront root s]"
        and "writes (SelectPrompt SELECT_MESSAGE (choices storefronts) # ct) = []"
        and "r = (case setStorefront env root s of
                    Inl x \<Rightarrow> Inl (Rejected x) | Inr u \<Rightarrow> Inr (Some s))"
        using False by simp_all
      with sel show ?thesis
        by blast
    qed
  qed
qed

text \<open>
  How an invocation ends: with no write and no storefront returned, or with the write of a
  fully resolved storefront as its last call, after the fetch of the list.
\<close>

lemma linkStorefront_outcome:
  assumes "linkStorefront env root session config opts = (r, t)"
  shows "(writes t = [] \<and> (\<forall>s. r \<noteq> Inr (Some s))) \<or>
         (\<exists>s t0. t = t0 @ [SetStorefront root s] \<and> writes t0 = [] \<and>
              GetStorefronts session \<in> set t0 \<and>
              fullyResolved env root session config opts s \<and>
              r = (case setStorefront env root s of
                     Inl x \<Rightarrow> Inl (Rejected x) | Inr u \<Rightarrow> Inr (Some s)))"
proof (cases "truthy (shop config)")
  case False
  with assms show ?thesis
    by (auto simp add: linkStorefront_def io_defs writes_simps)
next
  case True
  obtain ovr ov where ov: "confirmOverwrite env config (forceOf opts) = (ovr, ov)"
    by (cases "confirmOverwrite env config (forceOf opts)")
  have ovWrites: "writes ov = []"
    using writes_confirmOverwrite [of env config "forceOf opts"] ov by simp
  show ?thesis
  proof (cases "ovr = Inr True")
    case False
    with assms True ov ovWrites show ?thesis
      by (cases ovr) (auto simp add: linkStorefront_def io_defs writes_simps)
  next
    case go: True
    have allowed: "overwriteAllowed env config opts"
      using ov go by (simp add: overwriteAllowed_iff)
    show ?thesis
    proof (cases "getStorefronts env session")
      case (Inl x)
      with assms True ov ovWrites go show ?thesis
        by (auto simp add: linkStorefront_def io_defs writes_simps)
    next
      case (Inr storefronts)
      note unfold = linkStorefront_unfold [OF True ov [unfolded go] Inr, of root]
      have prefix: "writes (ov @ GetStorefronts session # t0) = []" if "writes t0 = []" for t0
        using that ovWrites by (simp add: writes_simps)
      show ?thesis
      proof (cases "truthy (flagStorefront opts)")
        case byName: True
        obtain r' t' where sub: "linkByName env root config opts storefronts = (r', t')"
          by (cases "linkByName env root config opts storefronts")
        with assms unfold byName have rt: "r = r'" "t = ov @ GetStorefronts session # t'"
          by simp_all
        from linkByName_writes [OF sub] show ?thesis
        proof
          assume "writes t' = [] \<and> (\<forall>s. r' \<noteq> Inr (Some s))"
          with rt prefix show ?thesis by simp
        next
          assume "\<exists>s t0. t' = t0 @ [SetStorefront root s] \<and> writes t0 = [] \<and>
              s \<in> set storefronts \<and> Some (title s) = flagStorefront opts \<and>
              r' = (case setStorefront env root s of
                      Inl x \<Rightarrow> Inl (Rejected x) | Inr u \<Rightarrow> Inr (Some s))"
          then obtain s t0 where w: "t' = t0 @ [SetStorefront root s]" "writes t0 = []"
              "s \<in> set storefronts" "Some (title s) = flagStorefront opts"
              "r' = (case setStorefront env root s of
                       Inl x \<Rightarrow> Inl (Rejected x) | Inr u \<Rightarrow> Inr (Some s))"
            by blast
          have "t = (ov @ GetStorefronts session # t0) @ [SetStorefront root s]"
            using rt w(1) by simp
          moreover have "GetStorefronts session \<in> set (ov @ GetStorefronts session # t0)"
            by simp
          moreover have "fullyResolved env root session config opts s"
            using True allowed Inr byName w(3,4) by (simp add: fullyResolved_def)
          ultimately show ?thesis
            using prefix [OF w(2)] rt(1) w(5) by blast
        qed
      next
        case byPrompt: False
        obtain r' t' where sub: "linkByPrompt env root session storefronts = (r', t')"
          by (cases "linkByPrompt env root session storefronts")
        with assms unfold byPrompt have rt: "r = r'" "t = ov @ GetStorefronts session # t'"
          by simp_all
        from linkByPrompt_writes [OF sub] show ?thesis
        proof
          assume "writes t' = [] \<and> (\<forall>s. r' \<noteq> Inr (Some s))"
          with rt prefix show ?thesis by simp
        next
          assume "\<exists>s t0 storefrontId. t' = t0 @ [SetStorefront root s] \<and> writes t0 = [] \<and>
              renderSelectPrompt env SELECT_MESSAGE (choices storefronts) = Inr storefrontId \<and>
              (if truthy storefrontId
               then s \<in> set storefronts \<and> Some (id_sf s) = storefrontId
               else fst (createNewStorefront env root session) = Inr s) \<and>
              r' = (case setStorefront env root s of
                      Inl x \<Rightarrow> Inl (Rejected x) | Inr u \<Rightarrow> Inr (Some s))"
          then obtain s t0 storefrontId where
              w: "t' = t0 @ [SetStorefront root s]" "writes t0 = []"
              "renderSelectPrompt env SELECT_MESSAGE (choices storefronts) = Inr storefrontId"
              "if truthy storefrontId
               then s \<in> set storefronts \<and> Some (id_sf s) = storefrontId
               else fst (createNewStorefront env root session) = Inr s"
              "r' = (case setStorefront env root s of
                       Inl x \<Rightarrow> Inl (Rejected x) | Inr u \<Rightarrow> Inr (Some s))"
            by blast
          have "t = (ov @ GetStorefronts session # t0) @ [SetStorefront root s]"
            using rt w(1) by simp
          moreover have "GetStorefronts session \<in> set (ov @ GetStorefronts session # t0)"
            by simp
          moreover have "fullyResolved env root session config opts s"
            using True allowed Inr byPrompt w(3,4) by (simp add: fullyResolved_def)
          ultimately show ?thesis
            using prefix [OF w(2)] rt(1) w(5) by blast
        qed
      qed
    qed
  qed
qed

subsection \<open>linkStorefront: the guards\<close>

text \<open>
  C5. When \<^verbatim>\<open>config.shop\<close> is not set (absent, or the empty string), \<^verbatim>\<open>linkStorefront\<close>
  throws the \<^verbatim>\<open>AbortError\<close> "No shop found in local config, login first." and has made no
  call at all by then: no prompt, no fetch of the storefront list, no write.
\<close>

theorem linkStorefront_no_shop:
  assumes "\<not> truthy (shop config)"
  shows "linkStorefront env root session config opts = (Inl (AbortError NO_SHOP), [])"
  using assms by (simp add: linkStorefront_def io_throw_def)

theorem linkStorefront_no_shop_witness:
  "\<not> truthy (shop noShopConfig) \<and>
   linkStorefront sampleEnv sampleRoot sampleSession noShopConfig byNameOpts =
     (Inl (AbortError NO_SHOP), [])"
  using linkStorefront_no_shop [of noShopConfig sampleEnv sampleRoot sampleSession byNameOpts]
  by (simp add: noShopConfig_def truthy_def)

text \<open>
  C4. When \<^verbatim>\<open>config.shop\<close> is set, a storefront is linked already, \<^verbatim>\<open>force\<close> is false
  and the user answers no to the overwrite confirmation, \<^verbatim>\<open>linkStorefront\<close> returns
  \<^verbatim>\<open>undefined\<close> and the confirmation prompt is the only call it made: the config store is
  not written.
\<close>

theorem linkStorefront_declined:
  assumes "truthy (shop config)"
    and "storefront config = Some linked" and "truthy (Some (id_linked linked))"
    and "\<not> forceOf opts"
    and "renderConfirmationPrompt env (overwriteMessage (title_linked linked)) = Inr False"
  shows "linkStorefront env root session config opts =
           (Inr None, [ConfirmationPrompt (overwriteMessage (title_linked linked))]) \<and>
         writes (snd (linkStorefront env root session config opts)) = []"
  using assms
  by (simp add: linkStorefront_def confirmOverwrite_def io_defs writes_simps)

theorem linkStorefront_declined_witness:
  "truthy (shop linkedConfig) \<and> \<not> forceOf byNameOpts \<and>
   linkStorefront sampleEnv sampleRoot sampleSession linkedConfig byNameOpts =
     (Inr None, [ConfirmationPrompt (overwriteMessage ''Boards'')])"
  using linkStorefront_declined [of linkedConfig
      "\<lparr> id_linked = ''3'', title_linked = ''Boards'' \<rparr>" byNameOpts sampleEnv sampleRoot
      sampleSession]
  by (simp add: linkedConfig_def byNameOpts_def sampleEnv_def forceOf_def truthy_def)

subsection \<open>linkStorefront: the storefront named by the flag\<close>

text \<open>
  C1, as the spec states it, fails: a flag that is provided as the empty string is falsy,
  so line 114 takes the branch of the selection prompt. With the flag \<^verbatim>\<open>""\<close> and
  no storefront of that title, no warning is emitted; the storefront picked at the prompt
  is written to the config store and returned.
\<close>

theorem linkStorefront_empty_flag_prompts:
  "truthy (shop unlinkedConfig) \<and> storefront unlinkedConfig = None \<and>
   flagStorefront emptyNameOpts = Some [] \<and>
   getStorefronts sampleEnv sampleSession = Inr [storeA, storeB, storeC] \<and>
   [] \<notin> set (map title [storeA, storeB, storeC]) \<and>
   linkStorefront sampleEnv sampleRoot sampleSession unlinkedConfig emptyNameOpts =
     (Inr (Some storeC),
      [GetStorefronts sampleSession,
       SelectPrompt SELECT_MESSAGE (choices [storeA, storeB, storeC]),
       SetStorefront sampleRoot storeC])"
  by (simp add: sample_defs model_defs)

text \<open>
  C1, amended. For a call with a shop set in the config, the overwrite step passed, and a
  flag that is a non-empty string: if the fetched list has a storefront whose title is
  equal to the flag, then such a storefront is written to the config store, as the one
  call after the fetch, and is returned when the write succeeds; if no title is equal to
  the flag, the warning is emitted, \<^verbatim>\<open>undefined\<close> is returned and nothing is written.
  Titles are compared with \<^verbatim>\<open>===\<close>: equality of strings, case included.
\<close>

theorem linkStorefront_by_name:
  assumes "truthy (shop config)"
    and "fst (confirmOverwrite env config (forceOf opts)) = Inr True"
    and "flagStorefront opts = Some f" and "f \<noteq> []"
    and "getStorefronts env session = Inr storefronts"
  shows "((\<exists>x\<in>set storefronts. title x = f) \<longrightarrow>
            (\<exists>s\<in>set storefronts. title s = f \<and>
               snd (linkStorefront env root session config opts) =
                 snd (confirmOverwrite env config (forceOf opts)) @
                   [GetStorefronts session, SetStorefront root s] \<and>
               (setStorefront env root s = Inr () \<longrightarrow>
                  fst (linkStorefront env root session config opts) = Inr (Some s)))) \<and>
         ((\<forall>x\<in>set storefronts. title x \<noteq> f) \<longrightarrow>
            linkStorefront env root session config opts =
              (Inr None,
               snd (confirmOverwrite env config (forceOf opts)) @
                 [GetStorefronts session,
                  notFoundWarning (Some f) (shop config) (cliCommand opts)]))"
proof -
  note unfold = linkStorefront_unfold [OF assms(1) overwrite_passed [OF assms(2)] assms(5)]
  show ?thesis
  proof (cases "find (\<lambda>x. title x = f) storefronts")
    case None
    then have "\<forall>x\<in>set storefronts. title x \<noteq> f"
      by (simp add: find_None_iff)
    with None show ?thesis
      using assms(3,4) by (auto simp add: unfold truthy_def linkByName_result [OF assms(3)])
  next
    case (Some s)
    then have "s \<in> set storefronts" and "title s = f"
      by (auto simp add: find_Some_iff)
    with Some show ?thesis
      using assms(3,4) by (auto simp add: unfold truthy_def linkByName_result [OF assms(3)])
  qed
qed

theorem linkStorefront_by_name_witness:
  "(\<exists>x\<in>set [storeA, storeB, storeC]. title x = ''Apparel'') \<and>
   (\<exists>s\<in>set [storeA, storeB, storeC]. title s = ''Apparel'' \<and>
      linkStorefront sampleEnv sampleRoot sampleSession unlinkedConfig byNameOpts =
        (Inr (Some s), [GetStorefronts sampleSession, SetStorefront sampleRoot s])) \<and>
   ''Shoes'' \<notin> set (map title [storeA, storeB, storeC]) \<and>
   linkStorefront sampleEnv sampleRoot sampleSession unlinkedConfig unknownNameOpts =
     (Inr None,
      [GetStorefronts sampleSession,
       notFoundWarning (Some ''Shoes'') (Some ''janes.myshopify.com'') ''h2''])"
proof -
  have shop: "truthy (shop unlinkedConfig)"
    by (simp add: unlinkedConfig_def truthy_def)
  have shopName: "shop unlinkedConfig = Some ''janes.myshopify.com''"
    by (simp add: unlinkedConfig_def)
  have fetched: "getStorefronts sampleEnv sampleSession = Inr [storeA, storeB, storeC]"
    by (simp add: sampleEnv_def)
  have ov: "confirmOverwrite sampleEnv unlinkedConfig frc = (Inr True, [])" for frc
    by (simp add: confirmOverwrite_def unlinkedConfig_def io_defs)
  have ovFst: "fst (confirmOverwrite sampleEnv unlinkedConfig frc) = Inr True" for frc
    by (simp add: ov)
  have written: "setStorefront sampleEnv sampleRoot s = Inr ()" for s
    by (simp add: sampleEnv_def)
  have flag1: "flagStorefront byNameOpts = Some ''Apparel''"
    by (simp add: byNameOpts_def)
  have flag2: "flagStorefront unknownNameOpts = Some ''Shoes''"
    and cli: "cliCommand unknownNameOpts = ''h2''"
    by (simp_all add: unknownNameOpts_def)
  have named: "\<exists>x\<in>set [storeA, storeB, storeC]. title x = ''Apparel''"
    by (simp add: storeA_def)
  have unknown: "\<forall>x\<in>set [storeA, storeB, storeC]. title x \<noteq> ''Shoes''"
    by (simp add: storeA_def storeB_def storeC_def)
  note found = linkStorefront_by_name [OF shop ovFst flag1 _ fetched, of sampleRoot]
  note missing = linkStorefront_by_name [OF shop ovFst flag2 _ fetched, of sampleRoot]
  from found named obtain s where s: "s \<in> set [storeA, storeB, storeC]"
      "title s = ''Apparel''"
      "snd (linkStorefront sampleEnv sampleRoot sampleSession unlinkedConfig byNameOpts) =
         snd (confirmOverwrite sampleEnv unlinkedConfig (forceOf byNameOpts)) @
           [GetStorefronts sampleSession, SetStorefront sampleRoot s]"
      "setStorefront sampleEnv sampleRoot s = Inr () \<longrightarrow>
         fst (linkStorefront sampleEnv sampleRoot sampleSession unlinkedConfig byNameOpts) =
           Inr (Some s)"
    by blast
  from s(3,4) have
    "linkStorefront sampleEnv sampleRoot sampleSession unlinkedConfig byNameOpts =
       (Inr (Some s), [GetStorefronts sampleSession, SetStorefront sampleRoot s])"
    by (simp add: ov written prod_eq_iff)
  with s(1,2) have first: "\<exists>s\<in>set [storeA, storeB, storeC]. title s = ''Apparel'' \<and>
      linkStorefront sampleEnv sampleRoot sampleSession unlinkedConfig byNameOpts =
        (Inr (Some s), [GetStorefronts sampleSession, SetStorefront sampleRoot s])"
    by blast
  from missing unknown have second:
    "linkStorefront sampleEnv sampleRoot sampleSession unlinkedConfig unknownNameOpts =
       (Inr None,
        [GetStorefronts sampleSession,
         notFoundWarning (Some ''Shoes'') (Some ''janes.myshopify.com'') ''h2''])"
    by (simp add: ov shopName cli)
  have absent: "''Shoes'' \<notin> set (map title [storeA, storeB, storeC])"
    by (simp add: storeA_def storeB_def storeC_def)
  from named first absent second show ?thesis
    by blast
qed

text \<open>
  C10. In the branch of the flag (the flag is truthy, the shop is set, the overwrite step
  passed), when several storefronts of the fetched list have the title asked for,
  \<^verbatim>\<open>linkStorefront\<close> takes the first of them in the order of the list: with no prompt and no
  error, that storefront is written to the config store and returned. The list is
  \<open>pre @ s # post\<close> with no match in \<open>pre\<close>; \<open>post\<close> may hold any number of other matches.
\<close>

theorem linkStorefront_first_match:
  assumes "truthy (shop config)"
    and "fst (confirmOverwrite env config (forceOf opts)) = Inr True"
    and "truthy (flagStorefront opts)" and "flagStorefront opts = Some f"
    and "getStorefronts env session = Inr (pre @ s # post)"
    and "\<forall>x\<in>set pre. title x \<noteq> f" and "title s = f"
    and "setStorefront env root s = Inr ()"
  shows "linkStorefront env root session config opts =
     (Inr (Some s),
      snd (confirmOverwrite env config (forceOf opts)) @
        [GetStorefronts session, SetStorefront root s])"
proof -
  have "find (\<lambda>x. title x = f) (pre @ s # post) = Some s"
    using assms(6,7) by (intro find_first) simp_all
  then show ?thesis
    using assms(3,8)
    by (simp add: linkStorefront_unfold [OF assms(1) overwrite_passed [OF assms(2)] assms(5)]
        linkByName_result [OF assms(4)])
qed

theorem linkStorefront_first_match_witness:
  "title storeA = ''Apparel'' \<and> title storeB = ''Apparel'' \<and> storeA \<noteq> storeB \<and>
   getStorefronts sampleEnv sampleSession = Inr ([] @ storeA # [storeB, storeC]) \<and>
   linkStorefront sampleEnv sampleRoot sampleSession unlinkedConfig byNameOpts =
     (Inr (Some storeA), [GetStorefronts sampleSession, SetStorefront sampleRoot storeA])"
  using linkStorefront_first_match [of unlinkedConfig sampleEnv byNameOpts "''Apparel''"
      sampleSession "[]" storeA "[storeB, storeC]" sampleRoot]
  by (simp add: sample_defs confirmOverwrite_def forceOf_def truthy_def io_return_def)

text \<open>
  C8, as the spec states it, fails: for the list to contain the same storefront with the
  title of the flag both times is not enough, since line 115 takes the first storefront
  with that title. Two storefronts share the title "Apparel"; the first run fetches them
  in one order and links the first, the second run, on the config the first one wrote,
  fetches them in the other order and links the other one.
\<close>

theorem linkStorefront_relink_other_first:
  "force forcedOpts = Some True \<and> flagStorefront forcedOpts = Some ''Apparel'' \<and>
   getStorefronts sampleEnv sampleSession = Inr [storeA, storeB, storeC] \<and>
   getStorefronts swappedEnv sampleSession = Inr [storeB, storeA, storeC] \<and>
   title storeA = ''Apparel'' \<and>
   storeA \<in> set [storeA, storeB, storeC] \<and> storeA \<in> set [storeB, storeA, storeC] \<and>
   linkStorefront sampleEnv sampleRoot sampleSession unlinkedConfig forcedOpts =
     (Inr (Some storeA), [GetStorefronts sampleSession, SetStorefront sampleRoot storeA]) \<and>
   linkStorefront swappedEnv sampleRoot sampleSession relinkedConfig forcedOpts =
     (Inr (Some storeB), [GetStorefronts sampleSession, SetStorefront sampleRoot storeB]) \<and>
   storeB \<noteq> storeA"
  by (simp add: sample_defs model_defs)

text \<open>
  C8, amended. Two runs of \<^verbatim>\<open>linkStorefront\<close> with \<^verbatim>\<open>force = true\<close> and the same truthy
  flag, each on a config with a shop set (so also the second on the config the first one
  wrote), where the first storefront of the fetched list with the title of the flag is the
  same storefront \<open>s\<close> both times: each run fetches the list, writes \<open>s\<close> to the config store
  and returns \<open>s\<close>. Neither run prompts.
\<close>

theorem linkStorefront_relink_idempotent:
  assumes "truthy (shop config1)" and "truthy (shop config2)"
    and "force opts = Some True"
    and "truthy (flagStorefront opts)" and "flagStorefront opts = Some f"
    and "getStorefronts env1 session = Inr (pre1 @ s # post1)"
    and "getStorefronts env2 session = Inr (pre2 @ s # post2)"
    and "\<forall>x\<in>set pre1. title x \<noteq> f" and "\<forall>x\<in>set pre2. title x \<noteq> f" and "title s = f"
    and "setStorefront env1 root s = Inr ()" and "setStorefront env2 root s = Inr ()"
  shows "linkStorefront env1 root session config1 opts =
           (Inr (Some s), [GetStorefronts session, SetStorefront root s]) \<and>
         linkStorefront env2 root session config2 opts =
           (Inr (Some s), [GetStorefronts session, SetStorefront root s])"
proof -
  have frc: "forceOf opts = True"
    using assms(3) by (simp add: forceOf_def)
  have first1: "find (\<lambda>x. title x = f) (pre1 @ s # post1) = Some s"
    using assms(8,10) by (intro find_first) simp_all
  have first2: "find (\<lambda>x. title x = f) (pre2 @ s # post2) = Some s"
    using assms(9,10) by (intro find_first) simp_all
  have ov1: "confirmOverwrite env1 config1 (forceOf opts) = (Inr True, [])"
    by (simp add: frc confirmOverwrite_force)
  have ov2: "confirmOverwrite env2 config2 (forceOf opts) = (Inr True, [])"
    by (simp add: frc confirmOverwrite_force)
  have run1: "linkStorefront env1 root session config1 opts =
      (Inr (Some s), [GetStorefronts session, SetStorefront root s])"
    using assms(4,11) first1
    by (simp add: linkStorefront_unfold [OF assms(1) ov1 assms(6)]
        linkByName_result [OF assms(5)])
  have run2: "linkStorefront env2 root session config2 opts =
      (Inr (Some s), [GetStorefronts session, SetStorefront root s])"
    using assms(4,12) first2
    by (simp add: linkStorefront_unfold [OF assms(2) ov2 assms(7)]
        linkByName_result [OF assms(5)])
  from run1 run2 show ?thesis by simp
qed

theorem linkStorefront_relink_idempotent_witness:
  "linkStorefront sampleEnv sampleRoot sampleSession unlinkedConfig forcedOpts =
     (Inr (Some storeA), [GetStorefronts sampleSession, SetStorefront sampleRoot storeA]) \<and>
   linkStorefront reorderedEnv sampleRoot sampleSession linkedConfig forcedOpts =
     (Inr (Some storeA), [GetStorefronts sampleSession, SetStorefront sampleRoot storeA])"
  using linkStorefront_relink_idempotent [of unlinkedConfig linkedConfig forcedOpts
      "''Apparel''" sampleEnv sampleSession "[]" storeA "[storeB, storeC]" reorderedEnv
      "[storeC]" "[]" sampleRoot]
  by (simp add: sample_defs truthy_def)

subsection \<open>linkStorefront: writes to the config store\<close>

text \<open>
  C7. An invocation of \<^verbatim>\<open>linkStorefront\<close>, whatever the collaborators answer, ends in one
  of two ways. Either it made no write and returns no storefront. Or its last call is its
  one write, made after the fetch of the list, of a storefront that was fully resolved (by
  the flag, by the pick at the prompt, or by a successful creation), and it returns that
  storefront, unless the write itself is rejected. So there is at most one write, and none
  on the paths where no storefront is fully resolved: the shop is missing, the overwrite
  is declined, the name of the flag or the id picked is not in the list, the creation
  fails, the result is \<^verbatim>\<open>undefined\<close>, or an error other than the rejection of the write
  is thrown.
\<close>

theorem linkStorefront_writes:
  assumes "linkStorefront env root session config opts = (r, t)"
  shows "((writes t = [] \<and> (\<forall>s. r \<noteq> Inr (Some s))) \<or>
          (\<exists>s t0. t = t0 @ [SetStorefront root s] \<and> writes t0 = [] \<and>
               GetStorefronts session \<in> set t0 \<and>
               fullyResolved env root session config opts s \<and>
               r = (case setStorefront env root s of
                      Inl x \<Rightarrow> Inl (Rejected x) | Inr u \<Rightarrow> Inr (Some s)))) \<and>
         length (writes t) \<le> 1 \<and>
         (\<not> truthy (shop config) \<longrightarrow> writes t = []) \<and>
         (\<not> overwriteAllowed env config opts \<longrightarrow> writes t = []) \<and>
         ((\<forall>s. \<not> fullyResolved env root session config opts s) \<longrightarrow> writes t = []) \<and>
         (\<forall>sfs. getStorefronts env session = Inr sfs \<and> truthy (flagStorefront opts) \<and>
                flagStorefront opts \<notin> set (map (\<lambda>x. Some (title x)) sfs) \<longrightarrow>
                writes t = []) \<and>
         (\<forall>sfs sel. getStorefronts env session = Inr sfs \<and> \<not> truthy (flagStorefront opts) \<and>
                renderSelectPrompt env SELECT_MESSAGE (choices sfs) = Inr sel \<and>
                truthy sel \<and> sel \<notin> set (map (\<lambda>x. Some (id_sf x)) sfs) \<longrightarrow>
                writes t = []) \<and>
         (\<forall>sfs sel e. getStorefronts env session = Inr sfs \<and> \<not> truthy (flagStorefront opts) \<and>
                renderSelectPrompt env SELECT_MESSAGE (choices sfs) = Inr sel \<and>
                \<not> truthy sel \<and> fst (createNewStorefront env root session) = Inl e \<longrightarrow>
                writes t = []) \<and>
         (r = Inr None \<longrightarrow> writes t = []) \<and>
         (\<forall>e. r = Inl e \<longrightarrow>
               writes t = [] \<or>
               (\<exists>s x. writes t = [SetStorefront root s] \<and>
                      setStorefront env root s = Inl x \<and> e = Rejected x))"
proof -
  note out = linkStorefront_outcome [OF assms]
  have written: "\<exists>s. writes t = [SetStorefront root s] \<and>
      fullyResolved env root session config opts s \<and>
      r = (case setStorefront env root s of
             Inl x \<Rightarrow> Inl (Rejected x) | Inr u \<Rightarrow> Inr (Some s))"
    if "writes t \<noteq> []"
    using out that by (auto simp add: writes_simps)
  have atMostOne: "length (writes t) \<le> 1"
    using written by (cases "writes t = []") auto
  have noShop: "\<not> truthy (shop config) \<longrightarrow> writes t = []"
    using written by (auto simp add: fullyResolved_def)
  have declined: "\<not> overwriteAllowed env config opts \<longrightarrow> writes t = []"
    using written by (auto simp add: fullyResolved_def)
  have unresolved: "(\<forall>s. \<not> fullyResolved env root session config opts s) \<longrightarrow> writes t = []"
    using written by auto
  have notFound:
    "\<forall>sfs. getStorefronts env session = Inr sfs \<and> truthy (flagStorefront opts) \<and>
           flagStorefront opts \<notin> set (map (\<lambda>x. Some (title x)) sfs) \<longrightarrow>
           writes t = []"
  proof (intro allI impI)
    fix sfs
    assume h: "getStorefronts env session = Inr sfs \<and> truthy (flagStorefront opts) \<and>
      flagStorefront opts \<notin> set (map (\<lambda>x. Some (title x)) sfs)"
    then have "\<not> fullyResolved env root session config opts s" for s
      by (force simp add: fullyResolved_def)
    with unresolved show "writes t = []" by blast
  qed
  have notPicked:
    "\<forall>sfs sel. getStorefronts env session = Inr sfs \<and> \<not> truthy (flagStorefront opts) \<and>
           renderSelectPrompt env SELECT_MESSAGE (choices sfs) = Inr sel \<and>
           truthy sel \<and> sel \<notin> set (map (\<lambda>x. Some (id_sf x)) sfs) \<longrightarrow>
           writes t = []"
  proof (intro allI impI)
    fix sfs sel
    assume h: "getStorefronts env session = Inr sfs \<and> \<not> truthy (flagStorefront opts) \<and>
      renderSelectPrompt env SELECT_MESSAGE (choices sfs) = Inr sel \<and>
      truthy sel \<and> sel \<notin> set (map (\<lambda>x. Some (id_sf x)) sfs)"
    then have "\<not> fullyResolved env root session config opts s" for s
      by (force simp add: fullyResolved_def)
    with unresolved show "writes t = []" by blast
  qed
  have notCreated:
    "\<forall>sfs sel e. getStorefronts env session = Inr sfs \<and> \<not> truthy (flagStorefront opts) \<and>
           renderSelectPrompt env SELECT_MESSAGE (choices sfs) = Inr sel \<and>
           \<not> truthy sel \<and> fst (createNewStorefront env root session) = Inl e \<longrightarrow>
           writes t = []"
  proof (intro allI impI)
    fix sfs sel e
    assume h: "getStorefronts env session = Inr sfs \<and> \<not> truthy (flagStorefront opts) \<and>
      renderSelectPrompt env SELECT_MESSAGE (choices sfs) = Inr sel \<and>
      \<not> truthy sel \<and> fst (createNewStorefront env root session) = Inl e"
    then have "\<not> fullyResolved env root session config opts s" for s
      by (auto simp add: fullyResolved_def)
    with unresolved show "writes t = []" by blast
  qed
  have undefinedResult: "r = Inr None \<longrightarrow> writes t = []"
  proof (intro impI, rule ccontr)
    assume "r = Inr None" and "writes t \<noteq> []"
    with written obtain s where
      "Inr None = (case setStorefront env root s of
                     Inl x \<Rightarrow> Inl (Rejected x) | Inr u \<Rightarrow> Inr (Some s))"
      by metis
    then show False
      by (cases "setStorefront env root s") simp_all
  qed
  have thrown: "\<forall>e. r = Inl e \<longrightarrow>
      writes t = [] \<or>
      (\<exists>s x. writes t = [SetStorefront root s] \<and>
             setStorefront env root s = Inl x \<and> e = Rejected x)"
  proof (intro allI impI)
    fix e
    assume thrownE: "r = Inl e"
    show "writes t = [] \<or>
      (\<exists>s x. writes t = [SetStorefront root s] \<and>
             setStorefront env root s = Inl x \<and> e = Rejected x)"
    proof (cases "writes t = []")
      case True
      then show ?thesis by simp
    next
      case False
      with written thrownE obtain s where s: "writes t = [SetStorefront root s]"
        "Inl e = (case setStorefront env root s of
                    Inl x \<Rightarrow> Inl (Rejected x) | Inr u \<Rightarrow> Inr (Some s))"
        by metis
      from s(2) obtain x where "setStorefront env root s = Inl x" and "e = Rejected x"
        by (cases "setStorefront env root s") simp_all
      with s(1) show ?thesis by blast
    qed
  qed
  show ?thesis
    by (intro conjI)
      (rule out atMostOne noShop declined unresolved notFound notPicked notCreated
        undefinedResult thrown)+
qed

theorem linkStorefront_writes_witness:
  "linkStorefront sampleEnv sampleRoot sampleSession unlinkedConfig promptOpts =
     (Inr (Some storeC),
      [GetStorefronts sampleSession,
       SelectPrompt SELECT_MESSAGE (choices [storeA, storeB, storeC]),
       SetStorefront sampleRoot storeC]) \<and>
   fullyResolved sampleEnv sampleRoot sampleSession unlinkedConfig promptOpts storeC \<and>
   length (writes (snd (linkStorefront sampleEnv sampleRoot sampleSession unlinkedConfig
     promptOpts))) \<le> 1 \<and>
   \<not> overwriteAllowed sampleEnv linkedConfig promptOpts \<and>
   writes (snd (linkStorefront sampleEnv sampleRoot sampleSession linkedConfig promptOpts)) =
     [] \<and>
   \<not> truthy (shop noShopConfig) \<and>
   writes (snd (linkStorefront sampleEnv sampleRoot sampleSession noShopConfig promptOpts)) =
     []"
proof -
  have run: "linkStorefront sampleEnv sampleRoot sampleSession unlinkedConfig promptOpts =
     (Inr (Some storeC),
      [GetStorefronts sampleSession,
       SelectPrompt SELECT_MESSAGE (choices [storeA, storeB, storeC]),
       SetStorefront sampleRoot storeC])"
    by (simp add: sample_defs model_defs)
  have resolved:
    "fullyResolved sampleEnv sampleRoot sampleSession unlinkedConfig promptOpts storeC"
    by (simp add: fullyResolved_def overwriteAllowed_def truthy_def sample_defs)
  have declined: "\<not> overwriteAllowed sampleEnv linkedConfig promptOpts"
    by (simp add: overwriteAllowed_def forceOf_def truthy_def sample_defs)
  have noShop: "\<not> truthy (shop noShopConfig)"
    by (simp add: noShopConfig_def truthy_def)
  have one: "length (writes (snd (linkStorefront sampleEnv sampleRoot sampleSession
      unlinkedConfig promptOpts))) \<le> 1"
    using linkStorefront_writes [OF run] run by simp
  have none1:
    "writes (snd (linkStorefront sampleEnv sampleRoot sampleSession linkedConfig promptOpts)) =
       []"
    using linkStorefront_writes [of sampleEnv sampleRoot sampleSession linkedConfig promptOpts
        "fst (linkStorefront sampleEnv sampleRoot sampleSession linkedConfig promptOpts)"
        "snd (linkStorefront sampleEnv sampleRoot sampleSession linkedConfig promptOpts)"]
      declined
    by simp
  have none2:
    "writes (snd (linkStorefront sampleEnv sampleRoot sampleSession noShopConfig promptOpts)) =
       []"
    using linkStorefront_writes [of sampleEnv sampleRoot sampleSession noShopConfig promptOpts
        "fst (linkStorefront sampleEnv sampleRoot sampleSession noShopConfig promptOpts)"
        "snd (linkStorefront sampleEnv sampleRoot sampleSession noShopConfig promptOpts)"]
      noShop
    by simp
  from run resolved one declined none1 noShop none2 show ?thesis
    by blast
qed

subsection \<open>createNewStorefront\<close>

text \<open>
  C6. When the call of the creator is rejected, the run of the tasks stops there with
  that error and with both local variables still undefined, so that the skip predicate of
  "Creating API tokens" holds and its body, the only caller of \<^verbatim>\<open>waitForJob\<close>, has not
  run; \<^verbatim>\<open>createNewStorefront\<close> throws the creator's own error, not the "Unknown error"
  \<^verbatim>\<open>AbortError\<close>.
\<close>

theorem createNewStorefront_creator_fails:
  assumes "renderTextPrompt env NAME_MESSAGE (titleize env (basename env root)) = Inr name"
    and "createStorefront env session name = Inl x"
  shows "renderTasks (creationTasks env session name) initialLocals =
           ((Some (Rejected x), initialLocals), [CreateStorefront session name]) \<and>
         (case skip (creatingApiTokens env session) of
            None \<Rightarrow> False | Some p \<Rightarrow> p initialLocals) \<and>
         createNewStorefront env root session =
           (Inl (Rejected x),
            [TextPrompt NAME_MESSAGE (titleize env (basename env root)),
             CreateStorefront session name]) \<and>
         fst (createNewStorefront env root session) \<noteq> Inl (AbortError UNKNOWN_ERROR)"
proof -
  have "case skip (creatingApiTokens env session) of
          None \<Rightarrow> False | Some p \<Rightarrow> p initialLocals"
    by (simp add: creatingApiTokens_def initialLocals_def truthy_def)
  then show ?thesis
    using assms by (simp add: renderTasks_creation createNewStorefront_def io_defs)
qed

theorem createNewStorefront_creator_fails_witness:
  "createStorefront createFailsEnv sampleSession ''My Cool Shop'' = Inl ''access denied'' \<and>
   createNewStorefront createFailsEnv sampleRoot sampleSession =
     (Inl (Rejected ''access denied''),
      [TextPrompt NAME_MESSAGE ''My Cool Shop'',
       CreateStorefront sampleSession ''My Cool Shop''])"
  using createNewStorefront_creator_fails [of createFailsEnv sampleRoot "''My Cool Shop''"
      sampleSession "''access denied''"]
  by (simp add: createFailsEnv_def sampleEnv_def)

text \<open>
  C2, as the spec states it, fails: when the creator returns a storefront and no
  \<^verbatim>\<open>jobId\<close>, the second task is skipped, the storefront is still held at the final check,
  and \<^verbatim>\<open>createNewStorefront\<close> returns it. No error is thrown.
\<close>

theorem createNewStorefront_no_job_returns:
  "renderTextPrompt noJobEnv NAME_MESSAGE ''My Cool Shop'' = Inr ''My Cool Shop'' \<and>
   createStorefront noJobEnv sampleSession ''My Cool Shop'' =
     Inr \<lparr> storefront_res = Some createdStore, jobId_res = None \<rparr> \<and>
   createNewStorefront noJobEnv sampleRoot sampleSession =
     (Inr createdStore,
      [TextPrompt NAME_MESSAGE ''My Cool Shop'',
       CreateStorefront sampleSession ''My Cool Shop''])"
  by (simp add: sample_defs model_defs)

text \<open>
  C2, amended. When the creator succeeds and returns no \<^verbatim>\<open>jobId\<close> (none, or the empty
  string), \<^verbatim>\<open>waitForJob\<close> is not called: the name prompt and the creator are the only
  calls made. \<^verbatim>\<open>createNewStorefront\<close> then returns the storefront the creator returned;
  the final check throws the "Unknown error" \<^verbatim>\<open>AbortError\<close> only when the creator returned
  no storefront either.
\<close>

theorem createNewStorefront_no_job:
  assumes "renderTextPrompt env NAME_MESSAGE (titleize env (basename env root)) = Inr name"
    and "createStorefront env session name = Inr res"
    and "\<not> truthy (jobId_res res)"
  shows "createNewStorefront env root session =
     ((case storefront_res res of
         None \<Rightarrow> Inl (AbortError UNKNOWN_ERROR) | Some s \<Rightarrow> Inr s),
      [TextPrompt NAME_MESSAGE (titleize env (basename env root)),
       CreateStorefront session name])"
  using assms
  by (simp add: renderTasks_creation createNewStorefront_def io_defs split: option.splits)

theorem createNewStorefront_no_job_witness:
  "\<not> truthy (jobId_res \<lparr> storefront_res = None, jobId_res = Some [] \<rparr>) \<and>
   createNewStorefront
     (sampleEnv \<lparr> createStorefront :=
        (\<lambda>se n. Inr \<lparr> storefront_res = None, jobId_res = Some [] \<rparr>) \<rparr>)
     sampleRoot sampleSession =
     (Inl (AbortError UNKNOWN_ERROR),
      [TextPrompt NAME_MESSAGE ''My Cool Shop'',
       CreateStorefront sampleSession ''My Cool Shop''])"
  using createNewStorefront_no_job [of
      "sampleEnv \<lparr> createStorefront :=
         (\<lambda>se n. Inr \<lparr> storefront_res = None, jobId_res = Some [] \<rparr>) \<rparr>"
      sampleRoot "''My Cool Shop''" sampleSession
      "\<lparr> storefront_res = None, jobId_res = Some [] \<rparr>"]
  by (simp add: sampleEnv_def truthy_def)

text \<open>
  C3. When the creator succeeds with a \<^verbatim>\<open>jobId\<close> and the call of \<^verbatim>\<open>waitForJob\<close> on it is
  rejected, the run of the tasks ends normally with the held storefront cleared, and
  \<^verbatim>\<open>createNewStorefront\<close> throws the "Unknown error" \<^verbatim>\<open>AbortError\<close>, which is not the
  waiter's error.
\<close>

theorem createNewStorefront_job_fails:
  assumes "renderTextPrompt env NAME_MESSAGE (titleize env (basename env root)) = Inr name"
    and "createStorefront env session name = Inr res"
    and "jobId_res res = Some j" and "j \<noteq> []"
    and "waitForJob env session (Some j) = Inl x"
  shows "renderTasks (creationTasks env session name) initialLocals =
           ((None, \<lparr>storefront_var = None, jobId_var = Some j\<rparr>),
            [CreateStorefront session name, WaitForJob session (Some j)]) \<and>
         createNewStorefront env root session =
           (Inl (AbortError UNKNOWN_ERROR),
            [TextPrompt NAME_MESSAGE (titleize env (basename env root)),
             CreateStorefront session name, WaitForJob session (Some j)]) \<and>
         fst (createNewStorefront env root session) \<noteq> Inl (Rejected x)"
  using assms
  by (simp add: renderTasks_creation createNewStorefront_def io_defs truthy_def)

theorem createNewStorefront_job_fails_witness:
  "waitForJob jobFailsEnv sampleSession (Some ''job'') = Inl ''job failed'' \<and>
   createNewStorefront jobFailsEnv sampleRoot sampleSession =
     (Inl (AbortError UNKNOWN_ERROR),
      [TextPrompt NAME_MESSAGE ''My Cool Shop'',
       CreateStorefront sampleSession ''My Cool Shop'',
       WaitForJob sampleSession (Some ''job'')])"
  using createNewStorefront_job_fails [of jobFailsEnv sampleRoot "''My Cool Shop''"
      sampleSession "\<lparr> storefront_res = Some createdStore, jobId_res = Some ''job'' \<rparr>"
      "''job''" "''job failed''"]
  by (simp add: jobFailsEnv_def sampleEnv_def)

text \<open>
  C9. Every call of \<^verbatim>\<open>waitForJob\<close> that \<^verbatim>\<open>createNewStorefront\<close> makes receives a
  \<^verbatim>\<open>jobId\<close> that is defined (and not the empty string): the body of "Creating API
  tokens" runs only when its skip predicate \<^verbatim>\<open>!jobId\<close> is false, so \<^verbatim>\<open>jobId!\<close> never
  stands for \<^verbatim>\<open>undefined\<close>.
\<close>

theorem waitForJob_jobId_defined:
  assumes "WaitForJob sess j \<in> set (snd (createNewStorefront env root session))"
  shows "\<exists>s. j = Some s \<and> s \<noteq> []"
proof (cases "renderTextPrompt env NAME_MESSAGE (titleize env (basename env root))")
  case (Inl x)
  with assms show ?thesis
    by (simp add: createNewStorefront_def io_defs)
next
  case (Inr name)
  note prompt = Inr
  show ?thesis
  proof (cases "createStorefront env session name")
    case (Inl x)
    with assms prompt show ?thesis
      by (simp add: createNewStorefront_def io_defs renderTasks_creation)
  next
    case (Inr res)
    with assms prompt have "truthy j"
      by (cases "truthy (jobId_res res)")
        (auto simp add: createNewStorefront_def io_defs renderTasks_creation
          split: option.splits sum.splits)
    then show ?thesis
      by (cases j) (simp_all add: truthy_def)
  qed
qed

theorem waitForJob_jobId_defined_witness:
  "WaitForJob sampleSession (Some ''job'') \<in>
     set (snd (createNewStorefront sampleEnv sampleRoot sampleSession)) \<and>
   (\<exists>s. Some ''job'' = Some s \<and> s \<noteq> [])"
proof -
  have called: "WaitForJob sampleSession (Some ''job'') \<in>
      set (snd (createNewStorefront sampleEnv sampleRoot sampleSession))"
    by (simp add: sample_defs model_defs)
  from waitForJob_jobId_defined [OF called] called show ?thesis
    by simp
qed

end
